theory Spec2Isabelle
  imports Complex_Main "HOL-Library.Sublist" "HOL-Library.Log_Nat"
begin

section \<open>Values shared by the modules\<close>

text \<open>
  Python values of type \<open>Any\<close> that the source stores in dictionaries (alert fields,
  evidence, payloads). A dictionary is an association list: Python dictionaries keep
  insertion order, and a key is looked up with \<open>map_of\<close>. A float is the real number
  that is its value: the code stores and compares them, and the only float arithmetic,
  in the metrics agent's latency check, is modelled there on doubles.
\<close>

datatype pyval =
    PNone
  | PBool bool
  | PInt int
  | PFloat real
  | PStr string
  | PList "pyval list"
  | PDict "(string \<times> pyval) list"

type_synonym pydict = "(string \<times> pyval) list"

text \<open>The exceptions the modelled code can raise.\<close>

datatype py_error =
    KeyError string
  | AttributeError string
  | ZeroDivisionError
  | OverflowError
  | OSError string

text \<open>
  A method of a mutable object either returns or raises; in both cases the object keeps
  the mutations made so far, so both outcomes carry the state.
\<close>

datatype 'a outcome = Returned 'a | Raised py_error 'a

fun state_of :: "'a outcome \<Rightarrow> 'a" where
  "state_of (Returned s) = s"
| "state_of (Raised e s) = s"

fun raised :: "'a outcome \<Rightarrow> py_error option" where
  "raised (Returned s) = None"
| "raised (Raised e s) = Some e"

text \<open>
  The outside world: \<open>uuid.uuid4().hex[:8]\<close> and \<open>datetime.now(timezone.utc).isoformat()\<close>
  are read from two supplies, one entry per call, and \<open>load_json\<close> fails on the files
  that \<open>load_error\<close> names.
\<close>

record world =
  uuids :: "nat \<Rightarrow> string"
  uuid_calls :: nat
  clock :: "nat \<Rightarrow> string"
  clock_calls :: nat
  load_error :: "string \<Rightarrow> py_error option"

definition uid :: "world \<Rightarrow> string \<times> world" where
  "uid w = (uuids w (uuid_calls w), w\<lparr>uuid_calls := Suc (uuid_calls w)\<rparr>)"

definition now :: "world \<Rightarrow> string \<times> world" where
  "now w = (clock w (clock_calls w), w\<lparr>clock_calls := Suc (clock_calls w)\<rparr>)"

section \<open>state.py\<close>

subsection \<open>Enums and value objects\<close>

datatype Severity = P1_CRITICAL | P2_HIGH | P3_MEDIUM | P4_LOW

datatype AgentRole = COMMANDER | LOGS_AGENT | METRICS_AGENT | DEPLOY_INTEL

datatype InvestigationPhase =
    ALERT_RECEIVED
  | TRIAGE
  | PARALLEL_INVESTIGATION
  | CORRELATION
  | ROOT_CAUSE_ANALYSIS
  | REMEDIATION_PLAN
  | COMPLETE

text \<open>The members of the enum, in the order of their declaration.\<close>

definition InvestigationPhase_members :: "InvestigationPhase list" where
  "InvestigationPhase_members =
     [ALERT_RECEIVED, TRIAGE, PARALLEL_INVESTIGATION, CORRELATION, ROOT_CAUSE_ANALYSIS,
      REMEDIATION_PLAN, COMPLETE]"

datatype MessageType =
    INVESTIGATION_TASK
  | FINDING
  | CORRELATION_REQUEST
  | STATUS_UPDATE
  | ESCALATION
  | REMEDIATION_ACTION

text \<open>\<open>receiver: AgentRole | str\<close>, the string for \<open>"ALL"\<close>.\<close>

datatype receiver = ToRole AgentRole | ToName string

subsection \<open>Data structures\<close>

text \<open>
  The dataclasses, field for field. Field names carry a prefix (\<open>fnd_\<close>, \<open>rca_\<close>,
  \<open>msg_\<close>) since several classes share the names \<open>id\<close>, \<open>timestamp\<close> and \<open>severity\<close>.
\<close>

record Finding =
  fnd_id :: string
  fnd_agent :: AgentRole
  fnd_timestamp :: string
  fnd_title :: string
  fnd_description :: string
  fnd_severity :: Severity
  fnd_evidence :: pydict
  fnd_related_services :: "string list"
  fnd_related_log_ids :: "string list"
  fnd_confidence :: real

record RootCauseAnalysis =
  rca_id :: string
  rca_timestamp :: string
  rca_summary :: string
  rca_root_causes :: "pydict list"
  rca_contributing_factors :: "string list"
  rca_timeline :: "pydict list"
  rca_remediation_steps :: "pydict list"
  rca_severity :: Severity
  rca_blast_radius :: "string list"
  rca_findings_used :: "string list"

record AgentMessage =
  msg_id :: string
  msg_timestamp :: string
  msg_sender :: AgentRole
  msg_receiver :: receiver
  msg_type :: MessageType
  msg_payload :: pydict
  msg_in_reply_to :: "string option"

subsection \<open>Shared state\<close>

record SharedState =
  investigation_id :: string
  created_at :: string
  phase :: InvestigationPhase
  severity :: Severity
  alert :: pydict
  raw_logs :: pydict
  raw_metrics :: pydict
  raw_deployments :: pydict
  investigation_plan :: pydict
  findings :: "Finding list"
  message_ledger :: "AgentMessage list"
  correlations :: "pydict list"
  rca :: "RootCauseAnalysis option"
  needs_escalation :: bool
  investigation_complete :: bool

text \<open>
  \<open>SharedState(alert=...)\<close>: the investigation id and the creation time come from the
  default factories, every other field has its default.
\<close>

definition SharedState_init :: "world \<Rightarrow> pydict \<Rightarrow> SharedState \<times> world" where
  "SharedState_init w al =
     (let (u, w1) = uid w;
          (t, w2) = now w1
      in (\<lparr>investigation_id = ''inv-'' @ u, created_at = t, phase = ALERT_RECEIVED,
           severity = P4_LOW, alert = al, raw_logs = [], raw_metrics = [],
           raw_deployments = [], investigation_plan = [], findings = [],
           message_ledger = [], correlations = [], rca = None,
           needs_escalation = False, investigation_complete = False\<rparr>, w2))"

definition add_finding :: "SharedState \<Rightarrow> Finding \<Rightarrow> SharedState" where
  "add_finding s finding = s\<lparr>findings := findings s @ [finding]\<rparr>"

definition send_message :: "SharedState \<Rightarrow> AgentMessage \<Rightarrow> SharedState" where
  "send_message s msg = s\<lparr>message_ledger := message_ledger s @ [msg]\<rparr>"

subsection \<open>Communication bus\<close>

text \<open>
  \<open>CommunicationBus.dispatch\<close>: the message's id and timestamp come from the default
  factories of \<open>AgentMessage\<close>, the other fields from the arguments. The result is the
  returned message, the mutated state and the world after the two reads.
\<close>

definition dispatch ::
  "world \<Rightarrow> SharedState \<Rightarrow> AgentRole \<Rightarrow> receiver \<Rightarrow> MessageType \<Rightarrow> pydict \<Rightarrow> string option
    \<Rightarrow> AgentMessage \<times> SharedState \<times> world" where
  "dispatch w s sender rcv mtype payload in_reply_to =
     (let (u, w1) = uid w;
          (t, w2) = now w1;
          msg = \<lparr>msg_id = ''msg-'' @ u, msg_timestamp = t, msg_sender = sender,
                 msg_receiver = rcv, msg_type = mtype, msg_payload = payload,
                 msg_in_reply_to = in_reply_to\<rparr>
      in (msg, send_message s msg, w2))"

definition broadcast ::
  "world \<Rightarrow> SharedState \<Rightarrow> AgentRole \<Rightarrow> MessageType \<Rightarrow> pydict
    \<Rightarrow> AgentMessage \<times> SharedState \<times> world" where
  "broadcast w s sender mtype payload = dispatch w s sender (ToName ''ALL'') mtype payload None"

text \<open>
  A sequence of dispatch calls on one shared state, each call given by its five
  arguments; the result collects the returned messages in call order.
\<close>

type_synonym dispatch_call = "AgentRole \<times> receiver \<times> MessageType \<times> pydict \<times> string option"

fun dispatch_calls ::
  "world \<Rightarrow> SharedState \<Rightarrow> dispatch_call list \<Rightarrow> AgentMessage list \<times> SharedState \<times> world" where
  "dispatch_calls w s [] = ([], s, w)"
| "dispatch_calls w s ((sender, rcv, mtype, payload, irt) # cs) =
     (case dispatch w s sender rcv mtype payload irt of
        (m, s1, w1) \<Rightarrow>
          (case dispatch_calls w1 s1 cs of (ms, s2, w2) \<Rightarrow> (m # ms, s2, w2)))"

definition call_of :: "AgentMessage \<Rightarrow> dispatch_call" where
  "call_of m = (msg_sender m, msg_receiver m, msg_type m, msg_payload m, msg_in_reply_to m)"

section \<open>allStandaloneAgents/commander_agent.py\<close>

subsection \<open>Data\<close>

text \<open>
  Strings are lists of bytes in UTF-8: the arrows and dashes of the source's literals
  are the byte sequences \<open>E2 86 92\<close> (rightwards arrow), \<open>E2 86 94\<close> (left right arrow),
  \<open>E2 80 94\<close> (em dash), \<open>C3 97\<close> (multiplication sign) and \<open>E2 9A A0\<close> (warning sign).

  The commander keeps findings, correlations, tasks and the RCA as dictionaries with
  fixed keys; each is a record with those keys as fields. Severities, which the module
  writes as the strings \<open>"P1_CRITICAL"\<close>, \<open>"P2_HIGH"\<close> and \<open>"P4_LOW"\<close>, are the values
  of the string enum \<open>Severity\<close>.

  \<open>collect_findings\<close> appends the dictionaries of the module-level table
  \<open>SPECIALIST_FINDINGS\<close> themselves, not copies, so a finding of the agent can be one of
  them: \<open>fd_shared\<close> then names it, by its agent key and its position under that key. It
  is \<open>None\<close> for any other dictionary.
\<close>

record finding_d =
  fd_title :: string
  fd_severity :: Severity
  fd_confidence :: real
  fd_evidence :: pydict
  fd_id :: string
  fd_agent :: string
  fd_shared :: "(string \<times> nat) option"

text \<open>An entry of \<open>SPECIALIST_FINDINGS\<close>: title, severity, confidence, evidence.\<close>

type_synonym canned_finding = "string \<times> Severity \<times> real \<times> pydict"

text \<open>A correlation rule: title, description, keywords to match, confidence.\<close>

type_synonym rule = "string \<times> string \<times> string list \<times> real"

record correlation_d =
  corr_id :: string
  corr_title :: string
  corr_description :: string
  corr_linked :: "string list"
  corr_confidence :: real

record task_d =
  task_id :: string
  task_to :: string
  task_objective :: string

record plan_d =
  plan_hypothesis :: string
  plan_tasks :: "(string \<times> string) list"

record root_cause_d =
  rc_rank :: nat
  rc_title :: string
  rc_detail :: string
  rc_confidence :: real
  rc_category :: string

record timeline_d =
  tl_t :: string
  tl_e :: string

record remediation_d =
  rem_p :: string
  rem_action :: string
  rem_cmd :: string
  rem_risk :: string

record rca_d =
  rd_id :: string
  rd_timestamp :: string
  rd_severity :: Severity
  rd_summary :: string
  rd_root_causes :: "root_cause_d list"
  rd_contributing_factors :: "string list"
  rd_timeline :: "timeline_d list"
  rd_remediation :: "remediation_d list"
  rd_blast_radius :: "string list"

definition SPECIALIST_FINDINGS :: "(string \<times> canned_finding list) list" where
  "SPECIALIST_FINDINGS =
    [
     (''logs_agent'',
       [
        (''Java OutOfMemoryError in payment-service'',
         P1_CRITICAL, 97 / 100,
         [(''heap_mb'', PInt 3891), (''threads'', PInt 847)]),
        (''DB connection pool fully exhausted'',
         P1_CRITICAL, 95 / 100,
         [(''active'', PInt 200), (''pending'', PInt 1847)]),
        ((''Cascading failure: order '' @ [CHR 0xE2, CHR 0x86, CHR 0x92] @ '' payment-service''),
         P2_HIGH, 92 / 100,
         [(''error_503'', PInt 1412), (''success_pct'', PInt 6)]),
        (''Expired TLS certificate blocking DB connections'',
         P2_HIGH, 98 / 100,
         [(''expired'', PStr ''2026-02-05T23:59:59Z'')]),
        (''Thread deadlock in batch processor'',
         P2_HIGH, 94 / 100,
         [(''threads'', PList [PStr ''worker-14'', PStr ''worker-22''])]),
        ((''Critical slow query '' @ [CHR 0xE2, CHR 0x80, CHR 0x94] @ '' missing index''),
         P2_HIGH, 96 / 100,
         [(''rows'', PInt 2800000), (''time_ms'', PInt 45200)])
       ]),
     (''metrics_agent'',
       [
        ((''Memory leak confirmed '' @ [CHR 0xE2, CHR 0x80, CHR 0x94] @ '' OOM every ~14 min''),
         P1_CRITICAL, 96 / 100,
         [(''rate_mb_min'', PInt 95), (''gc_pct'', PInt 78)]),
        ((''P99 latency spike: 1200'' @ [CHR 0xE2, CHR 0x86, CHR 0x92] @ ''25000ms (20.8x)''),
         P1_CRITICAL, 98 / 100,
         [(''start'', PInt 1200), (''peak'', PInt 25000)]),
        (''Error rate surged to 94.2%'',
         P1_CRITICAL, 97 / 100,
         [(''baseline'', PFloat (210 / 100)), (''peak'', PFloat (9420 / 100))]),
        ((''DB pool saturated '' @ [CHR 0xE2, CHR 0x80, CHR 0x94] @ '' 1847 queued''),
         P1_CRITICAL, 95 / 100,
         [(''active'', PInt 200), (''pending'', PInt 1847)]),
        ((''2 pods critical '' @ [CHR 0xE2, CHR 0x80, CHR 0x94] @ '' 33% capacity''),
         P1_CRITICAL, 99 / 100,
         [(''healthy_pct'', PInt 33), (''circuit'', PStr ''OPEN'')])
       ]),
     (''deploy_intel'',
       [
        (''v2.14.0 introduced unbounded in-memory queue'',
         P1_CRITICAL, 98 / 100,
         [(''queue'', PStr ''in_memory_unbounded'')]),
        ((''Circuit breaker threshold raised 50%'' @ [CHR 0xE2, CHR 0x86, CHR 0x92] @ ''70%''),
         P2_HIGH, 90 / 100,
         [(''old'', PInt 50), (''new'', PInt 70)]),
        (''Certificate rotation partial failure'',
         P2_HIGH, 97 / 100,
         [(''stale_pods'', PInt 2)]),
        (''3x traffic spike from Flash Sale'',
         P2_HIGH, 93 / 100,
         [(''multiplier'', PInt 3)]),
        (''DB index rebuild cancelled during maintenance'',
         P2_HIGH, 91 / 100,
         [(''index'', PStr ''idx_transactions_status_created_at'')])
       ])
    ]"

definition CORRELATION_RULES :: "rule list" where
  "CORRELATION_RULES =
    [
     ((''Memory Leak '' @ [CHR 0xE2, CHR 0x86, CHR 0x94] @ '' Unbounded Queue Config''),
      (''v2.14.0 unbounded queue + 4x threads '' @ [CHR 0xE2, CHR 0x86, CHR 0x92] @ '' OOM at batchAllocate '' @ [CHR 0xE2, CHR 0x86, CHR 0x92] @ '' 95 MiB/min leak.''),
      [''memory'', ''oom'', ''unbounded''], 97 / 100),
     ((''Slow Queries '' @ [CHR 0xE2, CHR 0x86, CHR 0x94] @ '' Missing Index '' @ [CHR 0xE2, CHR 0x86, CHR 0x94] @ '' Pool Exhaustion''),
      (''Cancelled index '' @ [CHR 0xE2, CHR 0x86, CHR 0x92] @ '' full table scans 38-45s '' @ [CHR 0xE2, CHR 0x86, CHR 0x92] @ '' 200 connections held '' @ [CHR 0xE2, CHR 0x86, CHR 0x92] @ '' 1847 queued.''),
      [''index'', ''pool'', ''connection'', ''slow query''], 95 / 100),
     ((''Traffic Spike '' @ [CHR 0xC3, CHR 0x97] @ '' Degraded Capacity = Cascade''),
      ''3x Flash Sale traffic hit 33% capacity. Raised circuit breaker delayed cutoff.'',
      [''traffic'', ''capacity'', ''circuit'', ''cascading''], 93 / 100),
     ((''Stale TLS '' @ [CHR 0xE2, CHR 0x86, CHR 0x94] @ '' Cert Rotation '' @ [CHR 0xE2, CHR 0x86, CHR 0x94] @ '' Canary Failure''),
      ''Partial cert rotation left canary with expired cert. Cannot connect to DB.'',
      [''tls'', ''cert''], 96 / 100)
    ]"

subsection \<open>The agent\<close>

text \<open>
  The attributes of \<open>CommanderAgent\<close>, prefixed \<open>ca_\<close>. The empty dictionaries that
  \<open>__init__\<close> gives \<open>plan\<close> and \<open>rca\<close> are \<open>None\<close>.
\<close>

record CommanderAgent =
  ca_alert :: pydict
  ca_step :: nat
  ca_severity :: Severity
  ca_findings :: "finding_d list"
  ca_correlations :: "correlation_d list"
  ca_plan :: "plan_d option"
  ca_tasks :: "task_d list"
  ca_rca :: "rca_d option"

definition CommanderAgent_init :: "pydict \<Rightarrow> CommanderAgent" where
  "CommanderAgent_init al =
     \<lparr>ca_alert = al, ca_step = 0, ca_severity = P4_LOW, ca_findings = [],
      ca_correlations = [], ca_plan = None, ca_tasks = [], ca_rca = None\<rparr>"

text \<open>\<open>_log\<close> counts the step and prints a line; the printed text is not modelled.\<close>

definition log_step :: "CommanderAgent \<Rightarrow> CommanderAgent" where
  "log_step a = a\<lparr>ca_step := ca_step a + 1\<rparr>"

text \<open>\<open>d[k]\<close> on a dictionary.\<close>

definition subscript :: "pydict \<Rightarrow> string \<Rightarrow> py_error + pyval" where
  "subscript d k = (case map_of d k of None \<Rightarrow> Inl (KeyError k) | Some v \<Rightarrow> Inr v)"

subsection \<open>Job 1: triage\<close>

definition TRIAGE_FILES :: "string list" where
  "TRIAGE_FILES =
     [''application_logs.json'', ''infrastructure_metrics.json'', ''deployment_history.json'']"

definition TRIAGE_PLAN :: plan_d where
  "TRIAGE_PLAN =
     \<lparr>plan_hypothesis =
        (''payment-service degradation '' @ [CHR 0xE2, CHR 0x80, CHR 0x94] @ '' memory leak, deploy regression, or infra failure''),
      plan_tasks =
        [
         (''logs_agent'', ''Find OOM errors, pool exhaustion, stack traces, cascading failures''),
         (''metrics_agent'', ''Analyze memory leak, latency, error rates, DB pool, pod health''),
         (''deploy_intel'', ''Map deployments + infra changes against incident timeline'')
        ]\<rparr>"

text \<open>The loop over the data files: \<open>load_json\<close> may raise, which ends the loop.\<close>

fun load_files :: "world \<Rightarrow> string list \<Rightarrow> CommanderAgent \<Rightarrow> CommanderAgent outcome" where
  "load_files w [] a = Returned a"
| "load_files w (name # names) a =
     (case load_error w name of
        Some e \<Rightarrow> Raised e a
      | None \<Rightarrow> load_files w names (log_step a))"

text \<open>The loop over the plan's tasks.\<close>

fun dispatch_tasks ::
  "(string \<times> string) list \<Rightarrow> CommanderAgent \<times> world \<Rightarrow> CommanderAgent \<times> world" where
  "dispatch_tasks [] aw = aw"
| "dispatch_tasks ((agent, objective) # rest) (a, w) =
     (let (u, w1) = uid w;
          a1 = a\<lparr>ca_tasks := ca_tasks a @
                 [\<lparr>task_id = ''msg-'' @ u, task_to = agent, task_objective = objective\<rparr>]\<rparr>
      in dispatch_tasks rest (log_step a1, w1))"

text \<open>
  \<open>triage\<close>. The arguments of the first \<open>_log\<close> call read \<open>alert["source"]\<close>,
  \<open>alert["title"]\<close> and \<open>alert["severity"]\<close> in this order before the call counts the
  step, so a missing key raises with the agent untouched.
\<close>

definition triage :: "CommanderAgent \<times> world \<Rightarrow> (CommanderAgent \<times> world) outcome" where
  "triage aw =
     (case aw of (a, w) \<Rightarrow>
       (case subscript (ca_alert a) ''source'' of
          Inl e \<Rightarrow> Raised e (a, w)
        | Inr _ \<Rightarrow>
       (case subscript (ca_alert a) ''title'' of
          Inl e \<Rightarrow> Raised e (a, w)
        | Inr _ \<Rightarrow>
       (case subscript (ca_alert a) ''severity'' of
          Inl e \<Rightarrow> Raised e (a, w)
        | Inr _ \<Rightarrow>
       (let a1 = log_step a in
        case subscript (ca_alert a1) ''severity'' of
          Inl e \<Rightarrow> Raised e (a1, w)
        | Inr level \<Rightarrow>
       (let a2 = log_step
              (a1\<lparr>ca_severity := (if level = PStr ''P1'' then P1_CRITICAL else P2_HIGH)\<rparr>)
        in
        case load_files w TRIAGE_FILES a2 of
          Raised e a3 \<Rightarrow> Raised e (a3, w)
        | Returned a3 \<Rightarrow>
            (let a4 = log_step (a3\<lparr>ca_plan := Some TRIAGE_PLAN\<rparr>)
             in Returned (dispatch_tasks (plan_tasks TRIAGE_PLAN) (a4, w)))))))))"

subsection \<open>Collecting the specialists' findings\<close>

text \<open>
  The inner loop, over the dictionaries of one agent key, \<open>k\<close> counting the position.
  \<open>f["id"] = ...\<close> and \<open>f["agent"] = agent\<close> write into the table's dictionary, so they
  also show in every entry of \<open>self.findings\<close> that is this dictionary, appended by an
  earlier call; then the dictionary is appended once more. Its other keys are never
  written, so they have the values of the literal.
\<close>

fun collect_items ::
  "string \<Rightarrow> nat \<Rightarrow> canned_finding list \<Rightarrow> CommanderAgent \<times> world
    \<Rightarrow> CommanderAgent \<times> world" where
  "collect_items agent k [] aw = aw"
| "collect_items agent k ((title, sev, conf, ev) # items) (a, w) =
     (let (u, w1) = uid w;
          written = map (\<lambda>g. if fd_shared g = Some (agent, k)
                               then g\<lparr>fd_id := ''find-'' @ u, fd_agent := agent\<rparr> else g)
                      (ca_findings a);
          f = \<lparr>fd_title = title, fd_severity = sev, fd_confidence = conf, fd_evidence = ev,
               fd_id = ''find-'' @ u, fd_agent = agent, fd_shared = Some (agent, k)\<rparr>
      in collect_items agent (Suc k) items (a\<lparr>ca_findings := written @ [f]\<rparr>, w1))"

fun collect_agents ::
  "(string \<times> canned_finding list) list \<Rightarrow> CommanderAgent \<times> world \<Rightarrow> CommanderAgent \<times> world" where
  "collect_agents [] aw = aw"
| "collect_agents ((agent, items) # rest) aw =
     (case collect_items agent 0 items aw of
        (a1, w1) \<Rightarrow> collect_agents rest (log_step a1, w1))"

definition collect_findings :: "CommanderAgent \<times> world \<Rightarrow> CommanderAgent \<times> world" where
  "collect_findings aw =
     (case collect_agents SPECIALIST_FINDINGS aw of (a1, w1) \<Rightarrow> (log_step a1, w1))"

subsection \<open>Job 2: correlate\<close>

text \<open>
  \<open>str.lower\<close>: the letters \<open>A\<close> to \<open>Z\<close> become \<open>a\<close> to \<open>z\<close>; every other byte, the
  bytes of a character outside ASCII included, stays as it is.
\<close>

definition lower_char :: "char \<Rightarrow> char" where
  "lower_char c =
     (case map_of (zip ''ABCDEFGHIJKLMNOPQRSTUVWXYZ'' ''abcdefghijklmnopqrstuvwxyz'') c of
        Some l \<Rightarrow> l
      | None \<Rightarrow> c)"

definition lower :: "string \<Rightarrow> string" where
  "lower s = map lower_char s"

text \<open>
  \<open>[f["id"] for f in self.findings if any(kw in f["title"].lower() for kw in keywords)]\<close>;
  the substring test \<open>kw in s\<close> is \<^const>\<open>sublist\<close>.
\<close>

definition linked_ids :: "string list \<Rightarrow> finding_d list \<Rightarrow> string list" where
  "linked_ids keywords fs =
     map fd_id (filter (\<lambda>f. list_ex (\<lambda>kw. sublist kw (lower (fd_title f))) keywords) fs)"

fun correlate_rules :: "rule list \<Rightarrow> CommanderAgent \<times> world \<Rightarrow> CommanderAgent \<times> world" where
  "correlate_rules [] aw = aw"
| "correlate_rules ((title, desc, keywords, conf) # rules) (a, w) =
     (let linked = linked_ids keywords (ca_findings a) in
      if 2 \<le> length linked then
        (let (u, w1) = uid w;
             a1 = a\<lparr>ca_correlations := ca_correlations a @
                    [\<lparr>corr_id = ''corr-'' @ u, corr_title = title, corr_description = desc,
                      corr_linked = linked, corr_confidence = conf\<rparr>]\<rparr>
         in correlate_rules rules (log_step a1, w1))
      else correlate_rules rules (a, w))"

definition correlate :: "CommanderAgent \<times> world \<Rightarrow> CommanderAgent \<times> world" where
  "correlate aw =
     (case aw of (a, w) \<Rightarrow>
       (case correlate_rules CORRELATION_RULES (log_step a, w) of
          (a1, w1) \<Rightarrow> (log_step a1, w1)))"

subsection \<open>Job 3: build the RCA\<close>

definition RCA_SUMMARY :: string where
  "RCA_SUMMARY =
     (''COMPOUND FAILURE: v2.14.0 unbounded queue + 4x threads '' @ [CHR 0xE2, CHR 0x86, CHR 0x92] @ '' 95 MiB/min leak '' @ [CHR 0xE2, CHR 0x86, CHR 0x92] @ '' OOM every ~14 min. Compounded by missing DB index, partial TLS cert failure, 3x traffic spike, raised circuit breaker.'')"

definition RCA_ROOT_CAUSES :: "root_cause_d list" where
  "RCA_ROOT_CAUSES =
     [
       \<lparr>rc_rank = 1, rc_title = ''Unbounded in-memory queue in v2.14.0'',
         rc_detail = (''kafka_backed'' @ [CHR 0xE2, CHR 0x86, CHR 0x92] @ ''in_memory_unbounded. Threads 200'' @ [CHR 0xE2, CHR 0x86, CHR 0x92] @ ''800. JVM=K8s limit.''),
         rc_confidence = 97 / 100, rc_category = ''deployment_regression''\<rparr>,
       \<lparr>rc_rank = 2, rc_title = (''Missing DB index '' @ [CHR 0xE2, CHR 0x80, CHR 0x94] @ '' full table scans''),
         rc_detail = ''Index rebuild cancelled. 2.8M row scans at 38-45s each.'',
         rc_confidence = 95 / 100, rc_category = ''infrastructure_gap''\<rparr>
     ]"

definition RCA_CONTRIBUTING_FACTORS :: "string list" where
  "RCA_CONTRIBUTING_FACTORS =
     [
       ''3x traffic from Flash Sale'',
       (''Partial TLS cert rotation '' @ [CHR 0xE2, CHR 0x80, CHR 0x94] @ '' canary can'' @ [CHR 0x27] @ ''t reach DB''),
       (''Circuit breaker raised 50%'' @ [CHR 0xE2, CHR 0x86, CHR 0x92] @ ''70%''),
       ''JVM heap 4Gi = K8s limit (no GC headroom)'',
       ''Deadlocks in batch processor''
     ]"

definition RCA_TIMELINE :: "timeline_d list" where
  "RCA_TIMELINE =
     [
       \<lparr>tl_t = ''Feb5 10:00'', tl_e = ''DB index rebuild cancelled''\<rparr>,
       \<lparr>tl_t = ''Feb5 16:00'', tl_e = ''TLS cert rotation PARTIAL FAILURE''\<rparr>,
       \<lparr>tl_t = ''Feb5 20:00'', tl_e = (''Circuit breaker '' @ [CHR 0xE2, CHR 0x86, CHR 0x92] @ '' 70%'')\<rparr>,
       \<lparr>tl_t = ''Feb5 22:30'', tl_e = ''v2.14.0 canary deployed (15%)''\<rparr>,
       \<lparr>tl_t = ''Feb6 06:00'', tl_e = ''Flash Sale push sent''\<rparr>,
       \<lparr>tl_t = ''Feb6 07:45'', tl_e = ''3x traffic spike''\<rparr>,
       \<lparr>tl_t = ''Feb6 07:48'', tl_e = ''First OOMKill''\<rparr>,
       \<lparr>tl_t = ''Feb6 08:00'', tl_e = ([CHR 0xE2, CHR 0x9A, CHR 0xA0] @ '' INCIDENT '' @ [CHR 0xE2, CHR 0x80, CHR 0x94] @ '' 503s at gateway'')\<rparr>,
       \<lparr>tl_t = ''Feb6 08:04'', tl_e = ''CrashLoopBackOff''\<rparr>,
       \<lparr>tl_t = ''Feb6 08:06'', tl_e = ''DB pool exhausted''\<rparr>,
       \<lparr>tl_t = ''Feb6 08:13'', tl_e = ''33% capacity, circuit OPEN''\<rparr>
     ]"

definition RCA_REMEDIATION :: "remediation_d list" where
  "RCA_REMEDIATION =
     [
       \<lparr>rem_p = ''IMMEDIATE'', rem_action = ''Rollback to v2.13.2'',
         rem_cmd = ''kubectl rollout undo deployment/payment-service'',
         rem_risk = ''LOW''\<rparr>,
       \<lparr>rem_p = ''IMMEDIATE'', rem_action = ''Rebuild missing DB index'',
         rem_cmd = ''CREATE INDEX CONCURRENTLY idx_transactions_status_created_at ON transactions(status,created_at);'',
         rem_risk = ''LOW''\<rparr>,
       \<lparr>rem_p = ''IMMEDIATE'', rem_action = ''Rotate TLS certs'',
         rem_cmd = ''kubectl rollout restart deployment/payment-service'',
         rem_risk = ''LOW''\<rparr>,
       \<lparr>rem_p = ''SHORT_TERM'', rem_action = (''Circuit breaker '' @ [CHR 0xE2, CHR 0x86, CHR 0x92] @ '' 50%''),
         rem_cmd = ''circuit_breaker.error_threshold_pct=50'',
         rem_risk = ''LOW''\<rparr>,
       \<lparr>rem_p = ''SHORT_TERM'', rem_action = (''K8s memory '' @ [CHR 0xE2, CHR 0x86, CHR 0x92] @ '' 5Gi''),
         rem_cmd = ''kubectl set resources ... --limits=memory=5Gi'',
         rem_risk = ''MEDIUM''\<rparr>,
       \<lparr>rem_p = ''PREVENTIVE'', rem_action = ''Bounded queue for v2.14.0'',
         rem_cmd = ''BlockingQueue(capacity=10000)'',
         rem_risk = ''CODE_REVIEW''\<rparr>
     ]"

definition RCA_BLAST_RADIUS :: "string list" where
  "RCA_BLAST_RADIUS =
     [
       ''payment-service (94%)'',
       ''order-service'',
       ''api-gateway'',
       ''notification-service'',
       ''end users''
     ]"

text \<open>
  \<open>build_rca\<close> assigns the dictionary literal (its id and timestamp read the world)
  and then logs: once before, and afterwards once for the summary, once per root
  cause, twice for the counts, once per remediation and once more.
\<close>

definition build_rca :: "CommanderAgent \<times> world \<Rightarrow> CommanderAgent \<times> world" where
  "build_rca aw =
     (case aw of (a, w) \<Rightarrow>
       (let a1 = log_step a;
            (u, w1) = uid w;
            (t, w2) = now w1;
            r = \<lparr>rd_id = ''rca-'' @ u, rd_timestamp = t, rd_severity = P1_CRITICAL,
                 rd_summary = RCA_SUMMARY, rd_root_causes = RCA_ROOT_CAUSES,
                 rd_contributing_factors = RCA_CONTRIBUTING_FACTORS,
                 rd_timeline = RCA_TIMELINE, rd_remediation = RCA_REMEDIATION,
                 rd_blast_radius = RCA_BLAST_RADIUS\<rparr>;
            a2 = a1\<lparr>ca_rca := Some r\<rparr>;
            n = 1 + length (rd_root_causes r) + 1 + 1 + length (rd_remediation r) + 1
        in ((log_step ^^ n) a2, w2)))"

subsection \<open>The run\<close>

definition run :: "CommanderAgent \<times> world \<Rightarrow> (CommanderAgent \<times> world) outcome" where
  "run aw =
     (case triage aw of
        Raised e aw1 \<Rightarrow> Raised e aw1
      | Returned aw1 \<Rightarrow> Returned (build_rca (correlate (collect_findings aw1))))"

section \<open>allStandaloneAgents/metrics_agent_standalone.py\<close>

text \<open>
  The latency check of \<open>MetricsAgent\<close>. An entry of the latency timeseries is a
  dictionary whose \<open>"p99"\<close> is an integer number of milliseconds; \<open>self.latency\<close> is
  an attribute that only \<open>ingest_data\<close> sets, so it may be missing (\<open>None\<close>).

  The text that an f-string gives a float is a parameter of the check, \<open>str_float\<close>: it
  only enters the title and the description of the finding.
\<close>

subsection \<open>Floats\<close>









subsection \<open>The agent\<close>













section \<open>The specification's notions\<close>

text \<open>
  A keyword matches a title when it is a substring of it, letter case ignored; a rule
  matches a finding when one of its keywords matches the finding's title.
\<close>

definition matches_ci :: "string list \<Rightarrow> finding_d \<Rightarrow> bool" where
  "matches_ci kws f = list_ex (\<lambda>kw. sublist (lower kw) (lower (fd_title f))) kws"

text \<open>A correlation link without its id, and the links a rule fires on a finding list.\<close>

definition link_core :: "correlation_d \<Rightarrow> rule" where
  "link_core l = (corr_title l, corr_description l, corr_linked l, corr_confidence l)"

definition fired :: "finding_d list \<Rightarrow> rule \<Rightarrow> rule list" where
  "fired fs r =
     (case r of (title, desc, kws, conf) \<Rightarrow>
        if 2 \<le> length (linked_ids kws fs) then [(title, desc, linked_ids kws fs, conf)] else [])"

text \<open>The links that one call of \<open>correlate\<close> appends.\<close>

definition new_links :: "CommanderAgent \<Rightarrow> world \<Rightarrow> correlation_d list" where
  "new_links a w = drop (length (ca_correlations a)) (ca_correlations (fst (correlate (a, w))))"

text \<open>The order of severities, \<open>P1_CRITICAL > P2_HIGH > P3_MEDIUM > P4_LOW\<close>, and its maximum.\<close>

fun sev_level :: "Severity \<Rightarrow> nat" where
  "sev_level P1_CRITICAL = 3"
| "sev_level P2_HIGH = 2"
| "sev_level P3_MEDIUM = 1"
| "sev_level P4_LOW = 0"

definition sev_max :: "Severity \<Rightarrow> Severity \<Rightarrow> Severity" where
  "sev_max x y = (if sev_level y \<le> sev_level x then x else y)"

fun max_severity :: "finding_d list \<Rightarrow> Severity" where
  "max_severity [] = P4_LOW"
| "max_severity (f # fs) = foldl sev_max (fd_severity f) (map fd_severity fs)"

text \<open>
  The ranking policy of the specification: findings ordered by severity, descending,
  then confidence, descending, a tie keeping the earlier finding first (insertion
  into a list sorted that way, behind the entries that rank at least as high).
\<close>

definition ranks_before :: "finding_d \<Rightarrow> finding_d \<Rightarrow> bool" where
  "ranks_before f g =
     (sev_level (fd_severity g) < sev_level (fd_severity f) \<or>
      (fd_severity f = fd_severity g \<and> fd_confidence g < fd_confidence f))"

fun rank_insert :: "finding_d \<Rightarrow> finding_d list \<Rightarrow> finding_d list" where
  "rank_insert f [] = [f]"
| "rank_insert f (g # gs) = (if ranks_before f g then f # g # gs else g # rank_insert f gs)"

definition ranked_findings :: "finding_d list \<Rightarrow> finding_d list" where
  "ranked_findings fs = foldl (\<lambda>acc f. rank_insert f acc) [] fs"


text \<open>A confidence within \<open>[0, 1]\<close>.\<close>

definition confidence_ok :: "Finding \<Rightarrow> bool" where
  "confidence_ok f = (0 \<le> fnd_confidence f \<and> fnd_confidence f \<le> 1)"

section \<open>Test data\<close>

definition fixture_world :: "string \<Rightarrow> world" where
  "fixture_world u =
     \<lparr>uuids = (\<lambda>n. u), uuid_calls = 0, clock = (\<lambda>n. ''2026-02-06T08:05:00+00:00''),
      clock_calls = 0, load_error = (\<lambda>name. None)\<rparr>"

text \<open>The two dispatches of the smoke test of \<open>state.py\<close>.\<close>

definition smoke_calls :: "dispatch_call list" where
  "smoke_calls =
     [(COMMANDER, ToRole LOGS_AGENT, INVESTIGATION_TASK,
       [(''instruction'', PStr ''Deep-scan payment-service logs for OOM and connection errors'')],
       None),
      (COMMANDER, ToRole METRICS_AGENT, INVESTIGATION_TASK,
       [(''instruction'', PStr ''Analyze memory leak pattern and latency spike in payment-service'')],
       None)]"

text \<open>The alert of the commander's main program, and the same alert without its severity.\<close>

definition demo_alert :: pydict where
  "demo_alert =
     [(''source'', PStr ''PagerDuty''),
      (''title'', PStr ''payment-service: P99 latency > 10s, error rate > 80%''),
      (''severity'', PStr ''P1''),
      (''affected_service'', PStr ''payment-service'')]"

definition alert_without_severity :: pydict where
  "alert_without_severity =
     [(''source'', PStr ''PagerDuty''),
      (''title'', PStr ''payment-service: P99 latency > 10s, error rate > 80%''),
      (''affected_service'', PStr ''payment-service'')]"

definition alert_p3 :: pydict where
  "alert_p3 =
     [(''source'', PStr ''PagerDuty''),
      (''title'', PStr ''payment-service: P99 latency > 10s, error rate > 80%''),
      (''severity'', PStr ''P3'')]"

text \<open>Findings for the examples: the first two match the rule with the keyword \<open>oom\<close>.\<close>

definition finding_of :: "string \<Rightarrow> string \<Rightarrow> Severity \<Rightarrow> real \<Rightarrow> finding_d" where
  "finding_of i title sev conf =
     \<lparr>fd_title = title, fd_severity = sev, fd_confidence = conf, fd_evidence = [],
      fd_id = i, fd_agent = ''logs_agent'', fd_shared = None\<rparr>"

definition oom_findings :: "finding_d list" where
  "oom_findings =
     [finding_of ''find-00000001'' ''OOM kill'' P2_HIGH (1 / 2),
      finding_of ''find-00000002'' ''Memory leak'' P2_HIGH (1 / 2),
      finding_of ''find-00000003'' ''TLS handshake'' P3_MEDIUM (1 / 4)]"

definition agent_with :: "finding_d list \<Rightarrow> CommanderAgent" where
  "agent_with fs = (CommanderAgent_init demo_alert)\<lparr>ca_findings := fs\<rparr>"

text \<open>The finding of the smoke test of \<open>state.py\<close>, with a confidence of 1.5.\<close>

definition overconfident_finding :: Finding where
  "overconfident_finding =
     \<lparr>fnd_id = ''find-0a1b2c3d'', fnd_agent = LOGS_AGENT,
      fnd_timestamp = ''2026-02-06T08:05:00+00:00'',
      fnd_title = ''OutOfMemoryError in TransactionProcessor'',
      fnd_description = ''Heap exhausted at 3891/4096 MiB due to unbounded batch allocation'',
      fnd_severity = P1_CRITICAL,
      fnd_evidence = [(''log_id'', PStr ''log-0002''), (''heap_used_mb'', PInt 3891)],
      fnd_related_services = [''payment-service''], fnd_related_log_ids = [],
      fnd_confidence = 3 / 2\<rparr>"







section \<open>Properties of the message ledger\<close>

lemma dispatch_ledger:
  "dispatch w s sender rcv mtype payload irt = (m, s1, w1) \<Longrightarrow>
     message_ledger s1 = message_ledger s @ [m] \<and> call_of m = (sender, rcv, mtype, payload, irt)"
  by (auto simp: dispatch_def send_message_def call_of_def uid_def now_def Let_def
      split: prod.splits)

lemma dispatch_calls_ledger:
  "dispatch_calls w s cs = (ms, s', w') \<Longrightarrow>
     message_ledger s' = message_ledger s @ ms \<and> map call_of ms = cs"
proof (induction cs arbitrary: w s ms s' w')
  case Nil
  then show ?case by simp
next
  case (Cons c cs)
  obtain sender rcv mtype payload irt where c: "c = (sender, rcv, mtype, payload, irt)"
    by (cases c) auto
  obtain m s1 w1 where d: "dispatch w s sender rcv mtype payload irt = (m, s1, w1)"
    by (cases "dispatch w s sender rcv mtype payload irt") auto
  obtain ms2 s2 w2 where r: "dispatch_calls w1 s1 cs = (ms2, s2, w2)"
    by (cases "dispatch_calls w1 s1 cs") auto
  from Cons.prems c d r have eq: "ms = m # ms2" "s' = s2"
    by auto
  from Cons.IH [OF r] dispatch_ledger [OF d] c eq show ?case
    by simp
qed

text \<open>
  Claim C2. After a sequence of N dispatch calls on a shared state, the ledger is the
  initial ledger followed by the N returned messages in call order: its length is the
  initial length plus N, the initial entries are still its first entries, unchanged,
  and the i-th returned message carries the sender, receiver, type, payload and
  in_reply_to of the i-th call.
\<close>

theorem dispatch_calls_append_only:
  "dispatch_calls w s cs = (ms, s', w') \<Longrightarrow>
     message_ledger s' = message_ledger s @ ms \<and>
     length (message_ledger s') = length (message_ledger s) + length cs \<and>
     take (length (message_ledger s)) (message_ledger s') = message_ledger s \<and>
     map call_of ms = cs"
proof -
  assume run: "dispatch_calls w s cs = (ms, s', w')"
  from dispatch_calls_ledger [OF run]
  have l: "message_ledger s' = message_ledger s @ ms" and c: "map call_of ms = cs"
    by simp_all
  from c have "length ms = length cs"
    by (metis length_map)
  with l c show ?thesis
    by simp
qed

theorem dispatch_calls_append_only_witness:
  "\<exists>ms s' w'.
     dispatch_calls (fixture_world ''0a1b2c3d'')
       (fst (SharedState_init (fixture_world ''0a1b2c3d'') [])) smoke_calls = (ms, s', w') \<and>
     length (message_ledger s') = 2 \<and> map call_of ms = smoke_calls"
proof -
  let ?s = "fst (SharedState_init (fixture_world ''0a1b2c3d'') [])"
  obtain ms s' w' where r: "dispatch_calls (fixture_world ''0a1b2c3d'') ?s smoke_calls = (ms, s', w')"
    by (cases "dispatch_calls (fixture_world ''0a1b2c3d'') ?s smoke_calls") auto
  have "message_ledger ?s = []"
    by (simp add: SharedState_init_def uid_def now_def)
  with dispatch_calls_append_only [OF r]
  have "length (message_ledger s') = 2 \<and> map call_of ms = smoke_calls"
    by (auto simp: smoke_calls_def)
  with r show ?thesis by blast
qed

section \<open>Properties of the correlation\<close>

lemma correlate_rules_Cons:
  "correlate_rules ((title, desc, kws, conf) # rules) (a, w) =
     (if 2 \<le> length (linked_ids kws (ca_findings a))
      then correlate_rules rules
             (log_step (a\<lparr>ca_correlations := ca_correlations a @
                [\<lparr>corr_id = ''corr-'' @ uuids w (uuid_calls w), corr_title = title,
                  corr_description = desc, corr_linked = linked_ids kws (ca_findings a),
                  corr_confidence = conf\<rparr>]\<rparr>),
              w\<lparr>uuid_calls := Suc (uuid_calls w)\<rparr>)
      else correlate_rules rules (a, w))"
  by (simp add: Let_def uid_def)

lemma fired_rule:
  "fired fs (title, desc, kws, conf) =
     (if 2 \<le> length (linked_ids kws fs) then [(title, desc, linked_ids kws fs, conf)] else [])"
  by (simp add: fired_def)

lemma correlate_rules_links:
  "\<exists>new. ca_correlations (fst (correlate_rules rs (a, w))) = ca_correlations a @ new \<and>
         map link_core new = concat (map (fired (ca_findings a)) rs)"
proof (induction rs arbitrary: a w)
  case Nil
  then show ?case by simp
next
  case (Cons r rules)
  obtain title desc kws conf where r: "r = (title, desc, kws, conf)"
    by (cases r) auto
  show ?case
  proof (cases "2 \<le> length (linked_ids kws (ca_findings a))")
    case True
    define l where "l = \<lparr>corr_id = ''corr-'' @ uuids w (uuid_calls w), corr_title = title,
      corr_description = desc, corr_linked = linked_ids kws (ca_findings a),
      corr_confidence = conf\<rparr>"
    define a1 where "a1 = log_step (a\<lparr>ca_correlations := ca_correlations a @ [l]\<rparr>)"
    define w1 where "w1 = w\<lparr>uuid_calls := Suc (uuid_calls w)\<rparr>"
    have step: "correlate_rules (r # rules) (a, w) = correlate_rules rules (a1, w1)"
      using True unfolding r correlate_rules_Cons a1_def w1_def l_def by simp
    from Cons.IH [of a1 w1] obtain new where
      n: "ca_correlations (fst (correlate_rules rules (a1, w1))) = ca_correlations a1 @ new"
         "map link_core new = concat (map (fired (ca_findings a1)) rules)"
      by blast
    have f: "ca_findings a1 = ca_findings a" "ca_correlations a1 = ca_correlations a @ [l]"
      by (simp_all add: a1_def log_step_def)
    have lc: "link_core l = (title, desc, linked_ids kws (ca_findings a), conf)"
      by (simp add: l_def link_core_def)
    have g1: "ca_correlations (fst (correlate_rules (r # rules) (a, w))) =
        ca_correlations a @ (l # new)"
      using step n(1) f(2) by simp
    have g2: "map link_core (l # new) = concat (map (fired (ca_findings a)) (r # rules))"
      using n(2) f(1) True lc by (simp add: r fired_rule)
    from g1 g2 show ?thesis by blast
  next
    case False
    then have "correlate_rules (r # rules) (a, w) = correlate_rules rules (a, w)"
      unfolding r correlate_rules_Cons by simp
    moreover have "concat (map (fired (ca_findings a)) (r # rules)) =
        concat (map (fired (ca_findings a)) rules)"
      using False by (simp add: r fired_rule)
    ultimately show ?thesis
      using Cons.IH [of a w] by simp
  qed
qed

lemma new_links_cores:
  "map link_core (new_links a w) = concat (map (fired (ca_findings a)) CORRELATION_RULES)"
proof -
  obtain new where
    n: "ca_correlations (fst (correlate_rules CORRELATION_RULES (log_step a, w))) =
          ca_correlations (log_step a) @ new"
       "map link_core new = concat (map (fired (ca_findings (log_step a))) CORRELATION_RULES)"
    using correlate_rules_links [of CORRELATION_RULES "log_step a" w] by blast
  have "ca_correlations (fst (correlate (a, w))) =
      ca_correlations (fst (correlate_rules CORRELATION_RULES (log_step a, w)))"
    by (simp add: correlate_def log_step_def split: prod.splits)
  with n(1) have "new_links a w = new"
    by (simp add: new_links_def log_step_def)
  with n(2) show ?thesis
    by (simp add: log_step_def)
qed

lemma fired_title:
  "c \<in> set (fired fs r) \<Longrightarrow> fst c = fst r"
  by (cases r) (auto simp: fired_rule split: if_splits)

lemma filter_fired_other:
  "fst r \<noteq> title \<Longrightarrow> filter (\<lambda>c. fst c = title) (fired fs r) = []"
  by (auto simp: filter_empty_conv dest: fired_title)

lemma filter_fired_absent:
  "title \<notin> fst ` set rs \<Longrightarrow> filter (\<lambda>c. fst c = title) (concat (map (fired fs) rs)) = []"
  by (induction rs) (auto simp: filter_fired_other)

lemma filter_fired:
  "distinct (map fst rs) \<Longrightarrow> (title, desc, kws, conf) \<in> set rs \<Longrightarrow>
     filter (\<lambda>c. fst c = title) (concat (map (fired fs) rs)) = fired fs (title, desc, kws, conf)"
proof (induction rs)
  case Nil
  then show ?case by simp
next
  case (Cons r rs)
  show ?case
  proof (cases "r = (title, desc, kws, conf)")
    case True
    with Cons.prems have "title \<notin> fst ` set rs"
      by auto
    then have "filter (\<lambda>c. fst c = title) (concat (map (fired fs) rs)) = []"
      by (rule filter_fired_absent)
    moreover have "filter (\<lambda>c. fst c = title) (fired fs r) = fired fs r"
      unfolding True by (simp add: fired_rule)
    ultimately show ?thesis
      using True by simp
  next
    case False
    with Cons.prems have m: "(title, desc, kws, conf) \<in> set rs" and d: "distinct (map fst rs)"
      by auto
    from m have "title \<in> fst ` set rs"
      by force
    with Cons.prems(1) have "fst r \<noteq> title"
      by auto
    then have "filter (\<lambda>c. fst c = title) (fired fs r) = []"
      by (rule filter_fired_other)
    with Cons.IH [OF d m] show ?thesis
      by simp
  qed
qed

lemma linked_ids_matches_ci:
  "list_all (\<lambda>kw. lower kw = kw) kws \<Longrightarrow>
     linked_ids kws fs = map fd_id (filter (matches_ci kws) fs)"
proof -
  assume l: "list_all (\<lambda>kw. lower kw = kw) kws"
  have "list_ex (\<lambda>kw. sublist kw (lower (fd_title f))) kws = matches_ci kws f" for f
    using l by (induction kws) (auto simp: matches_ci_def)
  then show ?thesis
    by (simp add: linked_ids_def)
qed

lemma rules_distinct: "distinct (map fst CORRELATION_RULES)"
  by (simp add: CORRELATION_RULES_def)

lemma rules_lowercase:
  "(title, desc, kws, conf) \<in> set CORRELATION_RULES \<Longrightarrow> list_all (\<lambda>kw. lower kw = kw) kws"
  by (auto simp: CORRELATION_RULES_def lower_def lower_char_def)

text \<open>
  Claim C1. For every finding list and every rule of the rule table, \<open>correlate\<close> emits
  a link for the rule if and only if at least two findings match it (some keyword of
  the rule is a substring of the finding's title, letter case ignored): then it emits
  exactly one link, whose linked ids are the ids of the matching findings in input
  order and whose confidence is the rule's; with fewer matches, one included, it emits
  none. The links of a rule are those that carry its title.
\<close>

theorem correlate_fires_iff_two_matches:
  assumes r: "(title, desc, kws, conf) \<in> set CORRELATION_RULES"
  shows "if 2 \<le> length (filter (matches_ci kws) (ca_findings a))
         then \<exists>l. filter (\<lambda>l. corr_title l = title) (new_links a w) = [l] \<and>
                  corr_linked l = map fd_id (filter (matches_ci kws) (ca_findings a)) \<and>
                  corr_confidence l = conf \<and> corr_description l = desc
         else filter (\<lambda>l. corr_title l = title) (new_links a w) = []"
proof -
  let ?fs = "ca_findings a"
  let ?em = "filter (\<lambda>l. corr_title l = title) (new_links a w)"
  have ids: "linked_ids kws ?fs = map fd_id (filter (matches_ci kws) ?fs)"
    using rules_lowercase [OF r] by (rule linked_ids_matches_ci)
  have "map link_core ?em = filter (\<lambda>c. fst c = title) (map link_core (new_links a w))"
    by (simp add: filter_map comp_def link_core_def)
  also have "\<dots> = fired ?fs (title, desc, kws, conf)"
    unfolding new_links_cores using rules_distinct r by (rule filter_fired)
  finally have em: "map link_core ?em = fired ?fs (title, desc, kws, conf)" .
  show ?thesis
  proof (cases "2 \<le> length (filter (matches_ci kws) ?fs)")
    case True
    with em ids have "map link_core ?em = [(title, desc, map fd_id (filter (matches_ci kws) ?fs), conf)]"
      by (simp add: fired_rule)
    then obtain l where "?em = [l]"
      and "link_core l = (title, desc, map fd_id (filter (matches_ci kws) ?fs), conf)"
      by (auto simp: map_eq_Cons_conv)
    with True show ?thesis
      by (auto simp: link_core_def)
  next
    case False
    with em ids have "map link_core ?em = []"
      by (simp add: fired_rule)
    with False show ?thesis
      by simp
  qed
qed


lemma oom_findings_memory:
  "filter (matches_ci [''memory'', ''oom'', ''unbounded'']) oom_findings = take 2 oom_findings"
  by (simp add: oom_findings_def matches_ci_def finding_of_def lower_def lower_char_def
      sublist_Cons_right)

lemma oom_findings_tls:
  "filter (matches_ci [''tls'', ''cert'']) oom_findings = drop 2 oom_findings"
  by (simp add: oom_findings_def matches_ci_def finding_of_def lower_def lower_char_def
      sublist_Cons_right)

theorem correlate_fires_iff_two_matches_witness:
  "\<exists>title desc conf title' desc' conf' l.
     (title, desc, [''memory'', ''oom'', ''unbounded''], conf) \<in> set CORRELATION_RULES \<and>
     (title', desc', [''tls'', ''cert''], conf') \<in> set CORRELATION_RULES \<and>
     filter (\<lambda>l. corr_title l = title)
       (new_links (agent_with oom_findings) (fixture_world ''0a1b2c3d'')) = [l] \<and>
     corr_linked l = [''find-00000001'', ''find-00000002''] \<and>
     corr_confidence l = 97 / 100 \<and>
     filter (\<lambda>l. corr_title l = title')
       (new_links (agent_with oom_findings) (fixture_world ''0a1b2c3d'')) = []"
proof -
  let ?a = "agent_with oom_findings"
  let ?w = "fixture_world ''0a1b2c3d''"
  obtain title desc kws conf where e: "CORRELATION_RULES ! 0 = (title, desc, kws, conf)"
    by (cases "CORRELATION_RULES ! 0") auto
  obtain title' desc' kws' conf' where e': "CORRELATION_RULES ! 3 = (title', desc', kws', conf')"
    by (cases "CORRELATION_RULES ! 3") auto
  from e have k: "kws = [''memory'', ''oom'', ''unbounded'']" and c: "conf = 97 / 100"
    by (simp_all add: CORRELATION_RULES_def)
  from e' have k': "kws' = [''tls'', ''cert'']"
    by (simp add: CORRELATION_RULES_def)
  have len: "length CORRELATION_RULES = 4"
    by (simp add: CORRELATION_RULES_def)
  have m: "(title, desc, kws, conf) \<in> set CORRELATION_RULES"
    using nth_mem [of 0 CORRELATION_RULES] e len by simp
  have m': "(title', desc', kws', conf') \<in> set CORRELATION_RULES"
    using nth_mem [of 3 CORRELATION_RULES] e' len by simp
  have fs: "ca_findings ?a = oom_findings"
    by (simp add: agent_with_def)
  have two: "2 \<le> length (filter (matches_ci kws) (ca_findings ?a))"
    unfolding fs k oom_findings_memory by (simp add: oom_findings_def)
  have one: "\<not> 2 \<le> length (filter (matches_ci kws') (ca_findings ?a))"
    unfolding fs k' oom_findings_tls by (simp add: oom_findings_def)
  from correlate_fires_iff_two_matches [OF m, of ?a ?w] two obtain l where
    l: "filter (\<lambda>l. corr_title l = title) (new_links ?a ?w) = [l]"
       "corr_linked l = map fd_id (filter (matches_ci kws) (ca_findings ?a))"
       "corr_confidence l = conf"
    by auto
  from l(2) have ids: "corr_linked l = [''find-00000001'', ''find-00000002'']"
    unfolding fs k oom_findings_memory by (simp add: oom_findings_def finding_of_def)
  from correlate_fires_iff_two_matches [OF m', of ?a ?w] one
  have none: "filter (\<lambda>l. corr_title l = title') (new_links ?a ?w) = []"
    by simp
  from m m' l(1) ids l(3) none show ?thesis
    unfolding k k' c by blast
qed

section \<open>Properties of the RCA synthesis\<close>

lemma log_steps_fields:
  "ca_rca ((log_step ^^ n) a) = ca_rca a"
  "ca_findings ((log_step ^^ n) a) = ca_findings a"
  "ca_step ((log_step ^^ n) a) = ca_step a + n"
  by (induction n) (simp_all add: log_step_def)

lemma build_rca_report:
  "ca_rca (fst (build_rca (a, w))) =
     Some \<lparr>rd_id = ''rca-'' @ uuids w (uuid_calls w), rd_timestamp = clock w (clock_calls w),
           rd_severity = P1_CRITICAL, rd_summary = RCA_SUMMARY,
           rd_root_causes = RCA_ROOT_CAUSES,
           rd_contributing_factors = RCA_CONTRIBUTING_FACTORS, rd_timeline = RCA_TIMELINE,
           rd_remediation = RCA_REMEDIATION, rd_blast_radius = RCA_BLAST_RADIUS\<rparr>"
  by (simp add: build_rca_def Let_def uid_def now_def log_steps_fields log_step_def)

lemma build_rca_findings: "ca_findings (fst (build_rca (a, w))) = ca_findings a"
  by (simp add: build_rca_def Let_def uid_def now_def log_steps_fields log_step_def)

lemma build_rca_step: "ca_step (fst (build_rca (a, w))) = ca_step a + 13"
  by (simp add: build_rca_def Let_def uid_def now_def log_steps_fields log_step_def
      RCA_ROOT_CAUSES_def RCA_REMEDIATION_def)

lemma sev_max_P1: "sev_max x y = P1_CRITICAL \<longleftrightarrow> x = P1_CRITICAL \<or> y = P1_CRITICAL"
  by (cases x; cases y) (simp_all add: sev_max_def)

lemma foldl_sev_max_P1:
  "foldl sev_max x ys = P1_CRITICAL \<longleftrightarrow> x = P1_CRITICAL \<or> P1_CRITICAL \<in> set ys"
  by (induction ys arbitrary: x) (auto simp: sev_max_P1)

lemma max_severity_P1:
  "fs \<noteq> [] \<Longrightarrow> max_severity fs = P1_CRITICAL \<longleftrightarrow> list_ex (\<lambda>f. fd_severity f = P1_CRITICAL) fs"
proof -
  assume "fs \<noteq> []"
  then obtain f gs where fs: "fs = f # gs"
    by (cases fs) auto
  have "(P1_CRITICAL \<in> set (map fd_severity gs)) = (\<exists>g\<in>set gs. fd_severity g = P1_CRITICAL)"
    by force
  then show ?thesis
    unfolding fs by (simp add: foldl_sev_max_P1 list_ex_iff del: set_map)
qed

lemma max_severity_oom: "max_severity oom_findings = P2_HIGH"
  by (simp add: oom_findings_def finding_of_def sev_max_def)

text \<open>
  Claim C3, as stated, fails: for three findings whose highest severity is P2_HIGH the
  report's severity is P1_CRITICAL.
\<close>

theorem build_rca_severity_not_max:
  "\<exists>r. ca_rca (fst (build_rca (agent_with oom_findings, fixture_world ''0a1b2c3d''))) = Some r \<and>
       rd_severity r = P1_CRITICAL \<and>
       max_severity (ca_findings (agent_with oom_findings)) = P2_HIGH \<and>
       rd_severity r \<noteq> max_severity (ca_findings (agent_with oom_findings))"
  by (simp add: build_rca_report agent_with_def max_severity_oom)

text \<open>
  Claim C3, amended. For every non-empty finding list the severity of the report that
  \<open>build_rca\<close> produces is the constant P1_CRITICAL; it equals the maximum severity of
  the findings exactly when some finding is P1_CRITICAL; and it is the same for every
  other agent state and world, in particular for every reordering of the findings.
\<close>

theorem build_rca_severity_fixed:
  assumes "ca_findings a \<noteq> []"
  shows "\<exists>r. ca_rca (fst (build_rca (a, w))) = Some r \<and>
             rd_severity r = P1_CRITICAL \<and>
             (rd_severity r = max_severity (ca_findings a)) =
               list_ex (\<lambda>f. fd_severity f = P1_CRITICAL) (ca_findings a) \<and>
             map_option rd_severity (ca_rca (fst (build_rca (b, w')))) = Some (rd_severity r)"
  using max_severity_P1 [OF assms] by (auto simp: build_rca_report)

theorem build_rca_severity_fixed_witness:
  "ca_findings (agent_with oom_findings) \<noteq> [] \<and>
   (\<exists>r. ca_rca (fst (build_rca (agent_with oom_findings, fixture_world ''0a1b2c3d''))) = Some r \<and>
        rd_severity r = P1_CRITICAL \<and>
        map_option rd_severity
          (ca_rca (fst (build_rca (agent_with (rev oom_findings), fixture_world ''ffffffff'')))) =
          Some (rd_severity r))"
proof -
  have h: "ca_findings (agent_with oom_findings) \<noteq> []"
    by (simp add: agent_with_def oom_findings_def)
  from build_rca_severity_fixed [OF h, of "fixture_world ''0a1b2c3d''"
      "agent_with (rev oom_findings)" "fixture_world ''ffffffff''"] h
  show ?thesis by blast
qed

lemma ranked_drop2: "ranked_findings (drop 2 oom_findings) = drop 2 oom_findings"
  by (simp add: ranked_findings_def oom_findings_def)

text \<open>
  Claim C4, as stated, fails: for a single finding of confidence 0.25 the report lists
  two root causes, of confidences 0.97 and 0.95, while the findings ranked by the
  specification's policy are that one finding.
\<close>

theorem root_causes_not_ranked_findings:
  "\<exists>r. ca_rca (fst (build_rca (agent_with (drop 2 oom_findings), fixture_world ''0a1b2c3d''))) =
         Some r \<and>
       length (rd_root_causes r) = 2 \<and>
       length (ranked_findings (ca_findings (agent_with (drop 2 oom_findings)))) = 1 \<and>
       map rc_confidence (rd_root_causes r) = [97 / 100, 95 / 100] \<and>
       map fd_confidence (ranked_findings (ca_findings (agent_with (drop 2 oom_findings)))) =
         [1 / 4]"
  by (simp add: build_rca_report agent_with_def ranked_drop2 RCA_ROOT_CAUSES_def)
     (simp add: oom_findings_def finding_of_def)

text \<open>
  Claim C4, amended. For every finding list the root causes of the report are the fixed
  list of the source: its ranks are 1, 2, contiguous from 1 with no gap and no
  duplicate, and its confidences 0.97, 0.95 descend; the list does not depend on the
  findings.
\<close>

theorem build_rca_root_causes_fixed:
  "\<exists>r. ca_rca (fst (build_rca (a, w))) = Some r \<and>
       rd_root_causes r = RCA_ROOT_CAUSES \<and>
       map rc_rank (rd_root_causes r) = [1..<Suc (length (rd_root_causes r))] \<and>
       map rc_confidence (rd_root_causes r) = [97 / 100, 95 / 100]"
  by (simp add: build_rca_report) (simp add: RCA_ROOT_CAUSES_def upt_rec)

text \<open>
  Claim C6, as stated, fails: on an agent without findings \<open>build_rca\<close> returns and
  stores the full report.
\<close>

theorem build_rca_accepts_no_findings:
  "ca_findings (CommanderAgent_init demo_alert) = [] \<and>
   (\<exists>r. ca_rca (fst (build_rca (CommanderAgent_init demo_alert, fixture_world ''0a1b2c3d''))) =
          Some r \<and>
        rd_root_causes r = RCA_ROOT_CAUSES \<and> rd_summary r = RCA_SUMMARY)"
  by (simp add: build_rca_report CommanderAgent_init_def)

text \<open>
  Claim C6, amended. For the empty finding list \<open>build_rca\<close> returns normally and
  stores the same fixed report as for any other finding list (severity P1_CRITICAL,
  the literal summary, root causes, factors, timeline, remediation and blast radius);
  the finding list stays empty.
\<close>

theorem build_rca_empty_findings:
  assumes "ca_findings a = []"
  shows "ca_rca (fst (build_rca (a, w))) =
           Some \<lparr>rd_id = ''rca-'' @ uuids w (uuid_calls w),
                 rd_timestamp = clock w (clock_calls w),
                 rd_severity = P1_CRITICAL, rd_summary = RCA_SUMMARY,
                 rd_root_causes = RCA_ROOT_CAUSES,
                 rd_contributing_factors = RCA_CONTRIBUTING_FACTORS,
                 rd_timeline = RCA_TIMELINE, rd_remediation = RCA_REMEDIATION,
                 rd_blast_radius = RCA_BLAST_RADIUS\<rparr> \<and>
         ca_findings (fst (build_rca (a, w))) = []"
  using assms by (simp add: build_rca_report build_rca_findings)

theorem build_rca_empty_findings_witness:
  "ca_findings (CommanderAgent_init []) = [] \<and>
   map_option rd_id (ca_rca (fst (build_rca (CommanderAgent_init [], fixture_world ''0a1b2c3d'')))) =
     Some ''rca-0a1b2c3d'' \<and>
   ca_findings (fst (build_rca (CommanderAgent_init [], fixture_world ''0a1b2c3d''))) = []"
proof -
  have h: "ca_findings (CommanderAgent_init []) = []"
    by (simp add: CommanderAgent_init_def)
  from build_rca_empty_findings [OF h, of "fixture_world ''0a1b2c3d''"] h
  show ?thesis by (simp add: fixture_world_def)
qed

section \<open>Properties of the triage\<close>

lemma load_files_severity:
  "ca_severity (state_of (load_files w names a)) = ca_severity a"
  by (induction names arbitrary: a) (auto simp: log_step_def split: option.splits)

lemma dispatch_tasks_severity:
  "ca_severity (fst (dispatch_tasks ts (a, w))) = ca_severity a"
  by (induction ts arbitrary: a w) (auto simp: log_step_def uid_def Let_def)

lemma triage_missing_severity:
  assumes "map_of (ca_alert a) ''source'' \<noteq> None" and "map_of (ca_alert a) ''title'' \<noteq> None"
    and "map_of (ca_alert a) ''severity'' = None"
  shows "triage (a, w) = Raised (KeyError ''severity'') (a, w)"
  using assms by (auto simp: triage_def subscript_def)

lemma triage_present_severity:
  assumes "map_of (ca_alert a) ''source'' \<noteq> None" and "map_of (ca_alert a) ''title'' \<noteq> None"
    and "map_of (ca_alert a) ''severity'' = Some level"
  shows "ca_severity (fst (state_of (triage (a, w)))) =
           (if level = PStr ''P1'' then P1_CRITICAL else P2_HIGH)"
proof -
  define a2 where "a2 = log_step ((log_step a)\<lparr>ca_severity :=
    (if level = PStr ''P1'' then P1_CRITICAL else P2_HIGH)\<rparr>)"
  have s2: "ca_severity a2 = (if level = PStr ''P1'' then P1_CRITICAL else P2_HIGH)"
    by (simp add: a2_def log_step_def)
  have t: "triage (a, w) =
      (case load_files w TRIAGE_FILES a2 of
         Raised e a3 \<Rightarrow> Raised e (a3, w)
       | Returned a3 \<Rightarrow>
           Returned (dispatch_tasks (plan_tasks TRIAGE_PLAN)
             (log_step (a3\<lparr>ca_plan := Some TRIAGE_PLAN\<rparr>), w)))"
    using assms
    by (auto simp: triage_def subscript_def Let_def a2_def log_step_def split: outcome.splits)
  show ?thesis
  proof (cases "load_files w TRIAGE_FILES a2")
    case (Returned a3)
    with load_files_severity [of w TRIAGE_FILES a2] have "ca_severity a3 = ca_severity a2"
      by simp
    with t Returned s2 show ?thesis
      by (simp add: dispatch_tasks_severity log_step_def)
  next
    case (Raised e a3)
    with load_files_severity [of w TRIAGE_FILES a2] have "ca_severity a3 = ca_severity a2"
      by simp
    with t Raised s2 show ?thesis
      by simp
  qed
qed

text \<open>
  Claim C5, as stated, fails: for an alert with a source and a title and no severity,
  \<open>triage\<close> raises \<open>KeyError\<close> instead of yielding a severity.
\<close>

theorem triage_absent_severity_raises:
  "map_of alert_without_severity ''severity'' = None \<and>
   triage (CommanderAgent_init alert_without_severity, fixture_world ''0a1b2c3d'') =
     Raised (KeyError ''severity'')
       (CommanderAgent_init alert_without_severity, fixture_world ''0a1b2c3d'')"
  by (simp add: triage_def subscript_def alert_without_severity_def CommanderAgent_init_def)

text \<open>
  Claim C5, amended. For every alert that carries a source and a title, \<open>triage\<close> sets
  the severity to P1_CRITICAL when the alert's severity is the string \<open>"P1"\<close> and to
  P2_HIGH for any other present value, whether or not loading the data files fails
  afterwards; when the alert has no severity, \<open>triage\<close> raises \<open>KeyError\<close> and leaves
  the agent as it was.
\<close>

theorem triage_severity:
  assumes "map_of (ca_alert a) ''source'' \<noteq> None" and "map_of (ca_alert a) ''title'' \<noteq> None"
  shows "case map_of (ca_alert a) ''severity'' of
           None \<Rightarrow> triage (a, w) = Raised (KeyError ''severity'') (a, w)
         | Some level \<Rightarrow>
             ca_severity (fst (state_of (triage (a, w)))) =
               (if level = PStr ''P1'' then P1_CRITICAL else P2_HIGH)"
  using triage_missing_severity [OF assms] triage_present_severity [OF assms]
  by (simp split: option.splits)

theorem triage_severity_witness:
  "ca_severity (fst (state_of (triage (CommanderAgent_init demo_alert,
       fixture_world ''0a1b2c3d'')))) = P1_CRITICAL \<and>
   ca_severity (fst (state_of (triage (CommanderAgent_init alert_p3,
       fixture_world ''0a1b2c3d'')))) = P2_HIGH \<and>
   raised (triage (CommanderAgent_init alert_without_severity, fixture_world ''0a1b2c3d'')) =
     Some (KeyError ''severity'') \<and>
   ca_severity (fst (state_of (triage (CommanderAgent_init alert_without_severity,
       fixture_world ''0a1b2c3d'')))) = P4_LOW"
proof -
  let ?w = "fixture_world ''0a1b2c3d''"
  have 1: "map_of (ca_alert (CommanderAgent_init demo_alert)) ''source'' \<noteq> None"
      "map_of (ca_alert (CommanderAgent_init demo_alert)) ''title'' \<noteq> None"
      "map_of (ca_alert (CommanderAgent_init demo_alert)) ''severity'' = Some (PStr ''P1'')"
    by (simp_all add: CommanderAgent_init_def demo_alert_def)
  have 2: "map_of (ca_alert (CommanderAgent_init alert_p3)) ''source'' \<noteq> None"
      "map_of (ca_alert (CommanderAgent_init alert_p3)) ''title'' \<noteq> None"
      "map_of (ca_alert (CommanderAgent_init alert_p3)) ''severity'' = Some (PStr ''P3'')"
    by (simp_all add: CommanderAgent_init_def alert_p3_def)
  have 3: "map_of (ca_alert (CommanderAgent_init alert_without_severity)) ''source'' \<noteq> None"
      "map_of (ca_alert (CommanderAgent_init alert_without_severity)) ''title'' \<noteq> None"
      "map_of (ca_alert (CommanderAgent_init alert_without_severity)) ''severity'' = None"
    by (simp_all add: CommanderAgent_init_def alert_without_severity_def)
  from triage_severity [OF 1(1,2), of ?w] 1(3)
  have a: "ca_severity (fst (state_of (triage (CommanderAgent_init demo_alert, ?w)))) = P1_CRITICAL"
    by simp
  from triage_severity [OF 2(1,2), of ?w] 2(3)
  have b: "ca_severity (fst (state_of (triage (CommanderAgent_init alert_p3, ?w)))) = P2_HIGH"
    by simp
  from triage_severity [OF 3(1,2), of ?w] 3(3)
  have c: "triage (CommanderAgent_init alert_without_severity, ?w) =
      Raised (KeyError ''severity'') (CommanderAgent_init alert_without_severity, ?w)"
    by simp
  from a b c show ?thesis
    by (simp add: CommanderAgent_init_def)
qed

section \<open>Properties of the finding submission\<close>

text \<open>
  Claim C7, as stated, fails: a finding of confidence 1.5 is stored.
\<close>

theorem add_finding_keeps_bad_confidence:
  "findings (add_finding (fst (SharedState_init (fixture_world ''0a1b2c3d'') demo_alert))
     overconfident_finding) = [overconfident_finding] \<and>
   fnd_confidence overconfident_finding = 3 / 2 \<and>
   \<not> confidence_ok overconfident_finding"
  by (simp add: add_finding_def SharedState_init_def uid_def now_def
      overconfident_finding_def confidence_ok_def)

text \<open>
  Claim C7, amended. \<open>add_finding\<close> appends every submitted finding, unchanged, whatever
  its confidence: nothing is rejected and nothing is clamped, so the stored findings all
  have a confidence within \<open>[0, 1]\<close> exactly when those stored before and the submitted
  one have.
\<close>

theorem add_finding_stores_unchanged:
  "findings (add_finding s f) = findings s @ [f] \<and>
   list_all confidence_ok (findings (add_finding s f)) =
     (list_all confidence_ok (findings s) \<and> confidence_ok f)"
  by (auto simp: add_finding_def)

section \<open>Properties of the stage order\<close>

lemma load_files_returns:
  "raised (load_files w names a) = None \<longleftrightarrow> list_all (\<lambda>n. load_error w n = None) names"
  by (induction names arbitrary: a) (auto split: option.splits)

lemma triage_returns_iff:
  "raised (triage (a, w)) = None \<longleftrightarrow>
     map_of (ca_alert a) ''source'' \<noteq> None \<and> map_of (ca_alert a) ''title'' \<noteq> None \<and>
     map_of (ca_alert a) ''severity'' \<noteq> None \<and>
     list_all (\<lambda>n. load_error w n = None) TRIAGE_FILES"
proof -
  define a2 where "a2 = (\<lambda>level. log_step ((log_step a)\<lparr>ca_severity :=
    (if level = PStr ''P1'' then P1_CRITICAL else P2_HIGH)\<rparr>))"
  have "raised (triage (a, w)) = None \<longleftrightarrow>
      (\<exists>x y level. map_of (ca_alert a) ''source'' = Some x \<and> map_of (ca_alert a) ''title'' = Some y \<and>
         map_of (ca_alert a) ''severity'' = Some level \<and>
         raised (load_files w TRIAGE_FILES (a2 level)) = None)"
    by (auto simp: triage_def subscript_def Let_def a2_def log_step_def
        split: outcome.splits option.splits)
  then show ?thesis
    by (auto simp: load_files_returns)
qed

lemma correlate_rules_step:
  "ca_step a \<le> ca_step (fst (correlate_rules rs (a, w)))"
proof (induction rs arbitrary: a w)
  case Nil
  then show ?case by simp
next
  case (Cons r rules)
  obtain title desc kws conf where r: "r = (title, desc, kws, conf)"
    by (cases r) auto
  show ?case
  proof (cases "2 \<le> length (linked_ids kws (ca_findings a))")
    case True
    define a1 where "a1 = log_step (a\<lparr>ca_correlations := ca_correlations a @
                [\<lparr>corr_id = ''corr-'' @ uuids w (uuid_calls w), corr_title = title,
                  corr_description = desc, corr_linked = linked_ids kws (ca_findings a),
                  corr_confidence = conf\<rparr>]\<rparr>)"
    have "correlate_rules (r # rules) (a, w) =
        correlate_rules rules (a1, w\<lparr>uuid_calls := Suc (uuid_calls w)\<rparr>)"
      using True unfolding r correlate_rules_Cons a1_def by simp
    moreover have "ca_step a \<le> ca_step a1"
      by (simp add: a1_def log_step_def)
    ultimately show ?thesis
      using Cons.IH [of a1 "w\<lparr>uuid_calls := Suc (uuid_calls w)\<rparr>"] by simp
  next
    case False
    then have "correlate_rules (r # rules) (a, w) = correlate_rules rules (a, w)"
      unfolding r correlate_rules_Cons by simp
    with Cons.IH [of a w] show ?thesis by simp
  qed
qed

lemma correlate_step: "ca_step a + 2 \<le> ca_step (fst (correlate (a, w)))"
proof -
  have "ca_step (log_step a) \<le> ca_step (fst (correlate_rules CORRELATION_RULES (log_step a, w)))"
    by (rule correlate_rules_step)
  then show ?thesis
    by (simp add: correlate_def log_step_def case_prod_beta)
qed

lemma correlate_rules_no_findings:
  "ca_findings a = [] \<Longrightarrow> correlate_rules rs (a, w) = (a, w)"
proof (induction rs)
  case Nil
  then show ?case by simp
next
  case (Cons r rules)
  obtain title desc kws conf where r: "r = (title, desc, kws, conf)"
    by (cases r) auto
  from Cons show ?case
    unfolding r correlate_rules_Cons by (simp add: linked_ids_def)
qed

text \<open>
  Claim C8, as stated, fails: on a fresh agent, for which \<open>triage\<close> has not run and no
  finding is collected, \<open>build_rca\<close> stores a report and \<open>correlate\<close>, called after it,
  runs too (the step counter reaches 15); neither fails and the state changes.
\<close>

theorem stages_run_out_of_order:
  "ca_plan (CommanderAgent_init demo_alert) = None \<and>
   ca_findings (CommanderAgent_init demo_alert) = [] \<and>
   ca_rca (fst (build_rca (CommanderAgent_init demo_alert, fixture_world ''0a1b2c3d''))) \<noteq> None \<and>
   ca_step (fst (correlate (build_rca (CommanderAgent_init demo_alert,
     fixture_world ''0a1b2c3d'')))) = 15"
proof -
  let ?aw = "build_rca (CommanderAgent_init demo_alert, fixture_world ''0a1b2c3d'')"
  have f: "ca_findings (log_step (fst ?aw)) = []"
    by (simp add: build_rca_findings log_step_def CommanderAgent_init_def)
  have "correlate ?aw = (log_step (log_step (fst ?aw)), snd ?aw)"
    using correlate_rules_no_findings [OF f, of CORRELATION_RULES "snd ?aw"]
    by (simp add: correlate_def case_prod_beta)
  then have "ca_step (fst (correlate ?aw)) = 15"
    by (simp add: log_step_def build_rca_step CommanderAgent_init_def)
  then show ?thesis
    by (simp add: build_rca_report CommanderAgent_init_def)
qed

text \<open>
  Claim C8, amended. No stage operation reads or checks a phase. In every agent state
  \<open>correlate\<close> runs (it logs at least twice) and \<open>build_rca\<close> stores a report (logging
  13 times); \<open>triage\<close> returns normally exactly when the alert has a source, a title
  and a severity and the three data files load. \<open>run\<close> performs \<open>triage\<close>,
  \<open>collect_findings\<close>, \<open>correlate\<close> and \<open>build_rca\<close> in this order, each on the state the
  one before left, and raises exactly when \<open>triage\<close> raises. The enum of the phases has
  exactly the seven members \<open>ALERT_RECEIVED\<close>, \<open>TRIAGE\<close>, \<open>PARALLEL_INVESTIGATION\<close>,
  \<open>CORRELATION\<close>, \<open>ROOT_CAUSE_ANALYSIS\<close>, \<open>REMEDIATION_PLAN\<close>, \<open>COMPLETE\<close>; a fresh shared
  state is in \<open>ALERT_RECEIVED\<close>, and the operations of the shared state (\<open>add_finding\<close>,
  \<open>send_message\<close>, \<open>dispatch\<close>) leave its phase as it is.
\<close>

theorem stage_operations_unguarded:
  "(raised (triage (a, w)) = None) =
     (map_of (ca_alert a) ''source'' \<noteq> None \<and> map_of (ca_alert a) ''title'' \<noteq> None \<and>
      map_of (ca_alert a) ''severity'' \<noteq> None \<and>
      list_all (\<lambda>n. load_error w n = None) TRIAGE_FILES) \<and>
   ca_step a + 2 \<le> ca_step (fst (correlate (a, w))) \<and>
   ca_rca (fst (build_rca (a, w))) \<noteq> None \<and>
   ca_step (fst (build_rca (a, w))) = ca_step a + 13 \<and>
   run (a, w) =
     (case triage (a, w) of
        Raised e aw \<Rightarrow> Raised e aw
      | Returned aw \<Rightarrow> Returned (build_rca (correlate (collect_findings aw)))) \<and>
   raised (run (a, w)) = raised (triage (a, w)) \<and>
   set InvestigationPhase_members = UNIV \<and>
   distinct InvestigationPhase_members \<and>
   length InvestigationPhase_members = 7 \<and>
   InvestigationPhase_members =
     [ALERT_RECEIVED, TRIAGE, PARALLEL_INVESTIGATION, CORRELATION, ROOT_CAUSE_ANALYSIS,
      REMEDIATION_PLAN, COMPLETE] \<and>
   phase (fst (SharedState_init w al)) = ALERT_RECEIVED \<and>
   phase (add_finding s f) = phase s \<and>
   phase (send_message s m) = phase s \<and>
   phase (fst (snd (dispatch w s sender rcv mtype payload irt))) = phase s"
proof -
  have d: "phase (fst (snd (dispatch w s sender rcv mtype payload irt))) = phase s"
    by (simp add: dispatch_def send_message_def uid_def now_def Let_def)
  have i: "phase (fst (SharedState_init w al)) = ALERT_RECEIVED"
    by (simp add: SharedState_init_def uid_def now_def Let_def)
  have r: "raised (run (a, w)) = raised (triage (a, w))"
    by (simp add: run_def split: outcome.splits)
  have "p \<in> set InvestigationPhase_members" for p
    by (cases p) (simp_all add: InvestigationPhase_members_def)
  then have u: "set InvestigationPhase_members = UNIV"
    by blast
  have m: "distinct InvestigationPhase_members" "length InvestigationPhase_members = 7"
    by (simp_all add: InvestigationPhase_members_def)
  from d i r u m show ?thesis
    using triage_returns_iff [of a w] correlate_step [of a w]
    by (simp add: build_rca_report build_rca_step add_finding_def send_message_def run_def
        InvestigationPhase_members_def)
qed

section \<open>Determinism of the correlation\<close>

lemma linked_ids_pairs:
  "linked_ids kws fs =
     map fst (filter (\<lambda>p. list_ex (\<lambda>kw. sublist kw (lower (snd p))) kws)
       (map (\<lambda>f. (fd_id f, fd_title f)) fs))"
  by (induction fs) (simp_all add: linked_ids_def)

lemma correlate_rules_first:
  assumes "2 \<le> length (linked_ids kws (ca_findings a))"
  shows "\<exists>l rest. ca_correlations (fst (correlate_rules ((title, desc, kws, conf) # rules) (a, w))) =
           ca_correlations a @ l # rest \<and> corr_id l = ''corr-'' @ uuids w (uuid_calls w)"
proof -
  define l where "l = \<lparr>corr_id = ''corr-'' @ uuids w (uuid_calls w), corr_title = title,
      corr_description = desc, corr_linked = linked_ids kws (ca_findings a),
      corr_confidence = conf\<rparr>"
  define a1 where "a1 = log_step (a\<lparr>ca_correlations := ca_correlations a @ [l]\<rparr>)"
  define w1 where "w1 = w\<lparr>uuid_calls := Suc (uuid_calls w)\<rparr>"
  have step: "correlate_rules ((title, desc, kws, conf) # rules) (a, w) = correlate_rules rules (a1, w1)"
    using assms unfolding correlate_rules_Cons a1_def w1_def l_def by simp
  from correlate_rules_links [of rules a1 w1] obtain new where
    "ca_correlations (fst (correlate_rules rules (a1, w1))) = ca_correlations a1 @ new"
    by blast
  with step have "ca_correlations (fst (correlate_rules ((title, desc, kws, conf) # rules) (a, w))) =
      ca_correlations a @ l # new"
    by (simp add: a1_def log_step_def)
  moreover have "corr_id l = ''corr-'' @ uuids w (uuid_calls w)"
    by (simp add: l_def)
  ultimately show ?thesis by blast
qed

lemma correlate_oom_first_id:
  "\<exists>l rest. ca_correlations (fst (correlate (agent_with oom_findings, fixture_world u))) = l # rest \<and>
     corr_id l = ''corr-'' @ u"
proof -
  obtain title desc rules where
    rs: "CORRELATION_RULES = (title, desc, [''memory'', ''oom'', ''unbounded''], 97 / 100) # rules"
    by (simp add: CORRELATION_RULES_def)
  let ?a = "log_step (agent_with oom_findings)"
  have fs: "ca_findings ?a = oom_findings"
    by (simp add: agent_with_def log_step_def)
  have "linked_ids [''memory'', ''oom'', ''unbounded''] oom_findings =
      map fd_id (filter (matches_ci [''memory'', ''oom'', ''unbounded'']) oom_findings)"
    by (rule linked_ids_matches_ci) (simp add: lower_def lower_char_def)
  then have two: "2 \<le> length (linked_ids [''memory'', ''oom'', ''unbounded''] (ca_findings ?a))"
    unfolding fs oom_findings_memory by (simp add: oom_findings_def)
  from correlate_rules_first [OF two, of title desc "97 / 100" rules "fixture_world u"] rs
  obtain l rest where
    "ca_correlations (fst (correlate_rules CORRELATION_RULES (?a, fixture_world u))) =
       ca_correlations ?a @ l # rest"
    and "corr_id l = ''corr-'' @ uuids (fixture_world u) (uuid_calls (fixture_world u))"
    by auto
  then have "ca_correlations (fst (correlate (agent_with oom_findings, fixture_world u))) = l # rest"
      and "corr_id l = ''corr-'' @ u"
    by (simp_all add: correlate_def log_step_def agent_with_def CommanderAgent_init_def
        fixture_world_def case_prod_beta)
  then show ?thesis by blast
qed

text \<open>
  Claim C9, as stated, fails: two runs of \<open>correlate\<close> on the same findings, in worlds
  whose \<open>uuid4\<close> differ, yield different correlation lists (the link ids differ).
\<close>

theorem correlate_ids_differ_between_runs:
  "ca_correlations (fst (correlate (agent_with oom_findings, fixture_world ''0a1b2c3d''))) \<noteq>
   ca_correlations (fst (correlate (agent_with oom_findings, fixture_world ''ffffffff'')))"
proof
  assume eq: "ca_correlations (fst (correlate (agent_with oom_findings, fixture_world ''0a1b2c3d''))) =
   ca_correlations (fst (correlate (agent_with oom_findings, fixture_world ''ffffffff'')))"
  from correlate_oom_first_id [of "''0a1b2c3d''"] obtain l rest where
    1: "ca_correlations (fst (correlate (agent_with oom_findings, fixture_world ''0a1b2c3d''))) = l # rest"
       "corr_id l = ''corr-'' @ ''0a1b2c3d''"
    by blast
  from correlate_oom_first_id [of "''ffffffff''"] obtain l' rest' where
    2: "ca_correlations (fst (correlate (agent_with oom_findings, fixture_world ''ffffffff''))) = l' # rest'"
       "corr_id l' = ''corr-'' @ ''ffffffff''"
    by blast
  from eq 1(1) 2(1) have "l = l'" by simp
  with 1(2) 2(2) show False by simp
qed

text \<open>
  Claim C9, amended. Apart from the link ids, the links that \<open>correlate\<close> appends are a
  function of the findings' ids and titles (and the rule table): two runs on finding
  lists with the same ids and titles, in any two worlds, append links with the same
  titles, descriptions, linked ids and confidences, in the same order.
\<close>

theorem correlate_deterministic_up_to_ids:
  assumes "map (\<lambda>f. (fd_id f, fd_title f)) (ca_findings a) =
           map (\<lambda>f. (fd_id f, fd_title f)) (ca_findings b)"
  shows "map link_core (new_links a w) = map link_core (new_links b w')"
proof -
  have ids: "linked_ids kws (ca_findings a) = linked_ids kws (ca_findings b)" for kws
    using assms by (simp add: linked_ids_pairs)
  have "fired (ca_findings a) r = fired (ca_findings b) r" for r
    by (cases r) (simp add: fired_rule ids)
  then have "fired (ca_findings a) = fired (ca_findings b)"
    by (rule ext)
  then show ?thesis
    by (simp add: new_links_cores)
qed

theorem correlate_deterministic_up_to_ids_witness:
  "map (\<lambda>f. (fd_id f, fd_title f)) (ca_findings (agent_with oom_findings)) =
     map (\<lambda>f. (fd_id f, fd_title f))
       (ca_findings (agent_with (map (fd_severity_update (\<lambda>_. P1_CRITICAL)) oom_findings))) \<and>
   map link_core (new_links (agent_with oom_findings) (fixture_world ''0a1b2c3d'')) =
     map link_core
       (new_links (agent_with (map (fd_severity_update (\<lambda>_. P1_CRITICAL)) oom_findings))
          (fixture_world ''ffffffff''))"
proof -
  have h: "map (\<lambda>f. (fd_id f, fd_title f)) (ca_findings (agent_with oom_findings)) =
     map (\<lambda>f. (fd_id f, fd_title f))
       (ca_findings (agent_with (map (fd_severity_update (\<lambda>_. P1_CRITICAL)) oom_findings)))"
    by (simp add: agent_with_def oom_findings_def finding_of_def)
  from correlate_deterministic_up_to_ids [OF h, of "fixture_world ''0a1b2c3d''"
      "fixture_world ''ffffffff''"] h
  show ?thesis by blast
qed

section \<open>Properties of the float arithmetic\<close>













section \<open>Properties of the latency check\<close>
















end
